theory Spec2Isabelle
  imports Complex_Main
begin

section \<open>Numbers\<close>

text \<open>
  The frontend is TypeScript: every \<open>number\<close> is an IEEE double. The embedding reads a
  finite double as the real number it denotes and computes with exact real arithmetic
  (\<open>sqrt\<close>, \<open>cos\<close> and \<open>pi\<close> are the mathematical ones); rounding is not modelled.
  A result that is not a finite number in the source (a division by zero gives
  \<open>Infinity\<close> or \<open>NaN\<close>, the square root of a negative number gives \<open>NaN\<close>) is the
  value \<open>None\<close>.
\<close>

section \<open>Health score classification\<close>

text \<open>
  \<open>frontend/src/components/FarmerDashboard/HealthGauge.tsx\<close>, \<open>getHealthConfig\<close>:
  the object returned for a score. The emoji field holds the UTF-8 bytes of the
  source's literal.
\<close>

record health_config =
  color :: string
  bgColor :: string
  label :: string
  emoji :: string

definition getHealthConfig :: "real \<Rightarrow> health_config" where
  "getHealthConfig score =
     (if score \<ge> 75 then
        \<lparr>color = ''#22c55e'', bgColor = ''#dcfce7'', label = ''Healthy'',
         emoji = [CHR 0xF0, CHR 0x9F, CHR 0x8C, CHR 0xB1]\<rparr>
      else if score \<ge> 55 then
        \<lparr>color = ''#eab308'', bgColor = ''#fef9c3'', label = ''Moderate'',
         emoji = [CHR 0xF0, CHR 0x9F, CHR 0x8C, CHR 0xBF]\<rparr>
      else if score \<ge> 35 then
        \<lparr>color = ''#f97316'', bgColor = ''#ffedd5'', label = ''Needs Attention'',
         emoji = [CHR 0xE2, CHR 0x9A, CHR 0xA0, CHR 0xEF, CHR 0xB8, CHR 0x8F]\<rparr>
      else
        \<lparr>color = ''#ef4444'', bgColor = ''#fee2e2'', label = ''Critical'',
         emoji = [CHR 0xF0, CHR 0x9F, CHR 0x9A, CHR 0xA8]\<rparr>)"

text \<open>\<open>frontend/src/components/Analysis/ZoneMap.tsx\<close>, \<open>getHealthColor\<close>.\<close>

definition getHealthColor :: "real \<Rightarrow> string" where
  "getHealthColor health =
     (if health \<ge> 75 then ''bg-green-500''
      else if health \<ge> 55 then ''bg-yellow-500''
      else if health \<ge> 35 then ''bg-orange-500''
      else ''bg-red-500'')"

text \<open>
  The four status categories of a zone (the \<open>status\<close> union of the \<open>Zone\<close> interface) and
  the category each display band stands for: the gauge label and the map colour of a band
  are those of one category (\<open>Needs Attention\<close> and orange are the band the legend of the
  map overlay gives as 35 to 54, the \<open>degraded\<close> one).
\<close>

datatype zone_status = healthy | moderate | degraded | critical

definition label_status :: "string \<Rightarrow> zone_status option" where
  "label_status l =
     (if l = ''Healthy'' then Some healthy
      else if l = ''Moderate'' then Some moderate
      else if l = ''Needs Attention'' then Some degraded
      else if l = ''Critical'' then Some critical
      else None)"

definition colour_status :: "string \<Rightarrow> zone_status option" where
  "colour_status c =
     (if c = ''bg-green-500'' then Some healthy
      else if c = ''bg-yellow-500'' then Some moderate
      else if c = ''bg-orange-500'' then Some degraded
      else if c = ''bg-red-500'' then Some critical
      else None)"


section \<open>Farm pages: analysis requests and polling\<close>

text \<open>
  A row of the \<open>farms\<close> table (\<open>supabase/migrations/001_initial_schema.sql\<close>), the
  type \<open>Farm\<close> of the pages. A \<open>DATE\<close> is a day number, a nullable column an option.
\<close>

record farm =
  farm_id :: string
  user_id :: string
  farm_name :: string
  location_lat :: real
  location_lng :: real
  area_hectares :: real
  crop_type :: string
  planting_date :: "int option"
  harvest_date :: "int option"

text \<open>
  An analysis record as the client reads it: the status column of
  \<open>soil_health_analyses\<close> and \<open>roi_analyses\<close> admits the four values below, the error
  message is nullable, and the results are one opaque payload.
\<close>

datatype analysis_status = pending | processing | completed | failed

record 'p report =
  report_id :: string
  status :: analysis_status
  error_message :: "string option"
  payload :: "'p option"

text \<open>A thrown \<open>Error\<close> with its message. A rejected promise is the left summand.\<close>

datatype js_error = Error string

text \<open>
  What the handler does to the outside, in order: \<open>Sleep ms\<close> is the awaited
  \<open>setTimeout\<close>, \<open>Fetch id\<close> one call of \<open>getSoilHealthReport\<close> or \<open>getROIReport\<close>.
\<close>

datatype event = Sleep nat | Fetch string

text \<open>
  \<open>frontend/src/app/dashboard/farms/[id]/page.tsx\<close>: the \<open>while\<close> loop of
  \<open>handleSoilHealthOnly\<close> (lines 122 to 130), which \<open>handleROIOnly\<close> repeats word for
  word (lines 159 to 167). \<open>getReport k id\<close> is the answer of the store to the call
  number \<open>k\<close> (from 0) of the fetch function; the loop has made \<open>attempts\<close> calls when
  it makes the next one. The result is the thrown error or the value of \<open>finalReport\<close>
  when the loop is left, with the events so far.
\<close>

function poll_loop ::
  "(nat \<Rightarrow> string \<Rightarrow> js_error + 'p report) \<Rightarrow> string \<Rightarrow> nat \<Rightarrow> 'p report \<Rightarrow> event list
     \<Rightarrow> (js_error + 'p report) \<times> event list" where
  "poll_loop getReport rid attempts finalReport tr =
     (if attempts < 30 \<and> status finalReport \<noteq> completed then
        if status finalReport = failed then (Inl (Error ''Analysis failed''), tr)
        else
          (case getReport attempts rid of
             Inl e \<Rightarrow> (Inl e, tr @ [Sleep 2000, Fetch rid])
           | Inr r \<Rightarrow> poll_loop getReport rid (attempts + 1) r (tr @ [Sleep 2000, Fetch rid]))
      else (Inr finalReport, tr))"
  by pat_completeness auto
termination
  by (relation "measure (\<lambda>(g, rid, attempts, r, tr). 30 - attempts)") auto

declare poll_loop.simps [simp del]

text \<open>
  The body of the \<open>try\<close> block up to the state updates: the request that creates the
  analysis, the loop, and the check after it (lines 116 to 134 and 153 to 171).
\<close>

definition poll_report ::
  "(string \<Rightarrow> js_error + 'p report) \<Rightarrow> (nat \<Rightarrow> string \<Rightarrow> js_error + 'p report) \<Rightarrow> string
     \<Rightarrow> (js_error + 'p report) \<times> event list" where
  "poll_report analyze getReport fid =
     (case analyze fid of
        Inl e \<Rightarrow> (Inl e, [])
      | Inr initialReport \<Rightarrow>
          (case poll_loop getReport (report_id initialReport) 0 initialReport [] of
             (Inl e, tr) \<Rightarrow> (Inl e, tr)
           | (Inr finalReport, tr) \<Rightarrow>
               if status finalReport \<noteq> completed
               then (Inl (Error ''Analysis timeout - please try again''), tr)
               else (Inr finalReport, tr)))"

text \<open>The component state the two handlers write (the \<open>useState\<close> cells of the page).\<close>

record ('s, 'r) page_state =
  analyzing :: bool
  analysisError :: string
  soilHealthReport :: "'s report option"
  roiReport :: "'r report option"
  showSoilHealth :: bool
  showROI :: bool

definition initial_page_state :: "('s, 'r) page_state" where
  "initial_page_state =
     \<lparr>analyzing = False, analysisError = [], soilHealthReport = None, roiReport = None,
      showSoilHealth = False, showROI = False\<rparr>"

text \<open>\<open>err.message || fallback\<close>: the empty message is falsy.\<close>

definition message_or :: "js_error \<Rightarrow> string \<Rightarrow> string" where
  "message_or err fallback = (case err of Error m \<Rightarrow> if m = [] then fallback else m)"

definition handleSoilHealthOnly ::
  "farm option \<Rightarrow> (string \<Rightarrow> js_error + 's report) \<Rightarrow> (nat \<Rightarrow> string \<Rightarrow> js_error + 's report)
     \<Rightarrow> ('s, 'r) page_state \<Rightarrow> ('s, 'r) page_state \<times> event list" where
  "handleSoilHealthOnly farm analyzeSoilHealth getSoilHealthReport st =
     (case farm of
        None \<Rightarrow> (st, [])
      | Some f \<Rightarrow>
          (let st1 = st\<lparr>analyzing := True, analysisError := []\<rparr> in
           case poll_report analyzeSoilHealth getSoilHealthReport (farm_id f) of
             (Inl err, tr) \<Rightarrow>
               (st1\<lparr>analysisError :=
                      message_or err ''Soil health analysis failed. Please try again.'',
                    analyzing := False\<rparr>, tr)
           | (Inr finalReport, tr) \<Rightarrow>
               (st1\<lparr>soilHealthReport := Some finalReport, showSoilHealth := True,
                    analyzing := False\<rparr>, tr)))"

definition handleROIOnly ::
  "farm option \<Rightarrow> (string \<Rightarrow> js_error + 'r report) \<Rightarrow> (nat \<Rightarrow> string \<Rightarrow> js_error + 'r report)
     \<Rightarrow> ('s, 'r) page_state \<Rightarrow> ('s, 'r) page_state \<times> event list" where
  "handleROIOnly farm analyzeROI getROIReport st =
     (case farm of
        None \<Rightarrow> (st, [])
      | Some f \<Rightarrow>
          (let st1 = st\<lparr>analyzing := True, analysisError := []\<rparr> in
           case poll_report analyzeROI getROIReport (farm_id f) of
             (Inl err, tr) \<Rightarrow>
               (st1\<lparr>analysisError := message_or err ''ROI analysis failed. Please try again.'',
                    analyzing := False\<rparr>, tr)
           | (Inr finalReport, tr) \<Rightarrow>
               (st1\<lparr>roiReport := Some finalReport, showROI := True, analyzing := False\<rparr>, tr)))"

text \<open>
  Vocabulary for the statements: \<open>polls id n\<close> is \<open>n\<close> rounds of one sleep of 2000 ms
  followed by one fetch, \<open>fetches\<close> counts the fetches of a trace, and a status is
  non-terminal when it is pending or processing.
\<close>

fun polls :: "string \<Rightarrow> nat \<Rightarrow> event list" where
  "polls rid 0 = []"
| "polls rid (Suc n) = [Sleep 2000, Fetch rid] @ polls rid n"

definition fetches :: "event list \<Rightarrow> nat" where
  "fetches tr = length (filter (\<lambda>e. case e of Fetch _ \<Rightarrow> True | Sleep _ \<Rightarrow> False) tr)"

definition non_terminal :: "analysis_status \<Rightarrow> bool" where
  "non_terminal s = (s = pending \<or> s = processing)"

text \<open>Sample farm, sample creation request and sample stores.\<close>

definition demo_farm :: farm where
  "demo_farm =
     \<lparr>farm_id = ''farm-1'', user_id = ''user-1'', farm_name = ''North field'',
      location_lat = 30, location_lng = 31, area_hectares = 15 / 2, crop_type = ''Wheat'',
      planting_date = Some 19800, harvest_date = Some 19950\<rparr>"

definition demo_analyze :: "string \<Rightarrow> js_error + nat report" where
  "demo_analyze fid =
     Inr \<lparr>report_id = ''analysis-1'', status = pending, error_message = None, payload = None\<rparr>"

definition store_always_processing :: "nat \<Rightarrow> string \<Rightarrow> js_error + nat report" where
  "store_always_processing k rid =
     Inr \<lparr>report_id = rid, status = processing, error_message = None, payload = None\<rparr>"

definition store_completed_third :: "nat \<Rightarrow> string \<Rightarrow> js_error + nat report" where
  "store_completed_third k rid =
     (if k < 2
      then Inr \<lparr>report_id = rid, status = pending, error_message = None, payload = None\<rparr>
      else Inr \<lparr>report_id = rid, status = completed, error_message = None, payload = Some 82\<rparr>)"

definition store_failed_first :: "nat \<Rightarrow> string \<Rightarrow> js_error + nat report" where
  "store_failed_first k rid =
     Inr \<lparr>report_id = rid, status = failed,
          error_message = Some ''Satellite data unavailable'', payload = None\<rparr>"

definition store_failed_third :: "nat \<Rightarrow> string \<Rightarrow> js_error + nat report" where
  "store_failed_third k rid =
     (if k < 2
      then Inr \<lparr>report_id = rid, status = processing, error_message = None, payload = None\<rparr>
      else Inr \<lparr>report_id = rid, status = failed,
                error_message = Some ''Satellite data unavailable'', payload = None\<rparr>)"

definition store_failed_last :: "nat \<Rightarrow> string \<Rightarrow> js_error + nat report" where
  "store_failed_last k rid =
     (if k < 29
      then Inr \<lparr>report_id = rid, status = processing, error_message = None, payload = None\<rparr>
      else Inr \<lparr>report_id = rid, status = failed,
                error_message = Some ''Earth Engine quota exceeded'', payload = None\<rparr>)"

section \<open>Zone grid\<close>









section \<open>Grid tier\<close>

text \<open>
  The tier selection is backend code (\<open>backend/app/services/spatial_grid.py\<close> in the
  README's project tree), which is not among the sources; the README lists its four
  tiers and section 4.1 of the specification gives them as a table.
\<close>

record tier =
  grid_rows :: nat
  grid_cols :: nat
  zone_count :: nat
  resolution_m :: nat

text \<open>
  Modelled from the spec: the tier table of section 4.1, one entry per line of the table
  with the bounds of its area range (none where the line gives none), the grid, the
  number of zones and the resolution in metres. What is missing is the backend function
  that selects the grid for a farm.
\<close>

definition tier_table :: "(real option \<times> real option \<times> tier) list" where
  "tier_table =
     [(None, Some 2, \<lparr>grid_rows = 2, grid_cols = 2, zone_count = 4, resolution_m = 10\<rparr>),
      (Some 2, Some 10, \<lparr>grid_rows = 3, grid_cols = 3, zone_count = 9, resolution_m = 10\<rparr>),
      (Some 10, Some 50, \<lparr>grid_rows = 4, grid_cols = 4, zone_count = 16, resolution_m = 30\<rparr>),
      (Some 50, None, \<lparr>grid_rows = 5, grid_cols = 5, zone_count = 25, resolution_m = 30\<rparr>)]"

text \<open>
  Modelled from the spec: an area is in the range of a line when it is at least the lower
  bound and below the upper bound (\<open>2 \<le> area < 10\<close>).
\<close>

definition in_area_range :: "real \<Rightarrow> real option \<times> real option \<times> tier \<Rightarrow> bool" where
  "in_area_range a r =
     (case r of (lo, hi, t) \<Rightarrow>
        (case lo of None \<Rightarrow> True | Some l \<Rightarrow> l \<le> a) \<and>
        (case hi of None \<Rightarrow> True | Some h \<Rightarrow> a < h))"

text \<open>
  Modelled from the spec: the tiers of the lines whose range holds the area. The
  selection is a function of the area when this list has one element.
\<close>

definition select_tier :: "real \<Rightarrow> tier list" where
  "select_tier a = map (\<lambda>r. snd (snd r)) (filter (in_area_range a) tier_table)"

section \<open>Farm records\<close>


























section \<open>Theorems\<close>

subsection \<open>Health score bands\<close>

text \<open>
  C2. Health-score classification is total on the scores from 0 to 100: the gauge
  configuration and the map colour of a score are those of exactly one of the four
  categories, the same one for both, which is healthy from 75 up, moderate from 55 up to
  but excluding 75, degraded from 35 up to but excluding 55 and critical below 35; the
  boundary scores 75, 55 and 35 fall in the higher band.
\<close>

theorem health_classification_total:
  "0 \<le> s \<and> s \<le> 100 \<Longrightarrow>
     (\<exists>!c. label_status (label (getHealthConfig s)) = Some c) \<and>
     colour_status (getHealthColor s) = label_status (label (getHealthConfig s)) \<and>
     label_status (label (getHealthConfig s)) =
       Some (if 75 \<le> s then healthy
             else if 55 \<le> s \<and> s < 75 then moderate
             else if 35 \<le> s \<and> s < 55 then degraded
             else critical) \<and>
     (s < 35 \<longleftrightarrow> label_status (label (getHealthConfig s)) = Some critical) \<and>
     label_status (label (getHealthConfig 75)) = Some healthy \<and>
     label_status (label (getHealthConfig 55)) = Some moderate \<and>
     label_status (label (getHealthConfig 35)) = Some degraded"
  by (simp add: getHealthConfig_def getHealthColor_def label_status_def colour_status_def)

theorem health_classification_total_witness:
  "label_status (label (getHealthConfig 60)) = Some moderate \<and>
   colour_status (getHealthColor 60) = Some moderate"
  using health_classification_total [of 60]
  by (simp add: getHealthConfig_def getHealthColor_def label_status_def colour_status_def)

subsection \<open>The polling loop\<close>

lemma fetches_polls: "fetches (polls rid n) = n"
  by (induction n) (simp_all add: fetches_def)

lemma poll_loop_prefix:
  assumes quiet: "\<And>j. j < n \<Longrightarrow> \<exists>r. getReport j rid = Inr r \<and> non_terminal (status r)"
    and last: "getReport n rid = Inr rn" and n: "n < 30"
  shows "attempts \<le> n \<Longrightarrow> non_terminal (status r0) \<Longrightarrow>
     poll_loop getReport rid attempts r0 tr =
     poll_loop getReport rid (Suc n) rn (tr @ polls rid (Suc n - attempts))"
proof (induction "n - attempts" arbitrary: attempts r0 tr)
  case 0
  then have "attempts = n" by simp
  with 0 last n show ?case
    by (subst poll_loop.simps) (auto simp: non_terminal_def)
next
  case (Suc m)
  then have lt: "attempts < n" by simp
  from quiet [OF lt] obtain r where r: "getReport attempts rid = Inr r" "non_terminal (status r)"
    by blast
  have m: "m = n - Suc attempts" using Suc.hyps by simp
  have step: "poll_loop getReport rid attempts r0 tr =
      poll_loop getReport rid (Suc attempts) r (tr @ [Sleep 2000, Fetch rid])"
    using lt n r Suc.prems by (subst poll_loop.simps) (auto simp: non_terminal_def)
  have "Suc n - attempts = Suc (Suc n - Suc attempts)" using lt by simp
  then have tr: "tr @ polls rid (Suc n - attempts) =
      (tr @ [Sleep 2000, Fetch rid]) @ polls rid (Suc n - Suc attempts)"
    by simp
  from Suc.hyps(1) [OF m _ r(2), of "tr @ [Sleep 2000, Fetch rid]"] lt
  have "poll_loop getReport rid (Suc attempts) r (tr @ [Sleep 2000, Fetch rid]) =
      poll_loop getReport rid (Suc n) rn
        ((tr @ [Sleep 2000, Fetch rid]) @ polls rid (Suc n - Suc attempts))"
    by simp
  with step tr show ?case by simp
qed

lemma poll_loop_exit_completed:
  "status r = completed \<Longrightarrow> poll_loop getReport rid attempts r tr = (Inr r, tr)"
  by (subst poll_loop.simps) simp

lemma poll_loop_exit_budget:
  "poll_loop getReport rid 30 r tr = (Inr r, tr)"
  by (subst poll_loop.simps) simp

lemma poll_loop_failed:
  "attempts < 30 \<Longrightarrow> status r = failed \<Longrightarrow>
   poll_loop getReport rid attempts r tr = (Inl (Error ''Analysis failed''), tr)"
  by (subst poll_loop.simps) simp

lemma poll_report_completed:
  assumes "analyze fid = Inr r0" "non_terminal (status r0)"
    and "\<And>j. j < n \<Longrightarrow> \<exists>r. getReport j (report_id r0) = Inr r \<and> non_terminal (status r)"
    and "getReport n (report_id r0) = Inr rn" "status rn = completed" "n < 30"
  shows "poll_report analyze getReport fid = (Inr rn, polls (report_id r0) (Suc n))"
  using poll_loop_prefix [of n getReport "report_id r0" rn 0 r0 "[]", OF assms(3,4,6) _ assms(2)]
    assms(1,5)
  by (simp add: poll_report_def poll_loop_exit_completed)

lemma poll_report_timeout:
  assumes "analyze fid = Inr r0" "non_terminal (status r0)"
    and "\<And>j. j < 30 \<Longrightarrow> \<exists>r. getReport j (report_id r0) = Inr r \<and> non_terminal (status r)"
  shows "poll_report analyze getReport fid =
     (Inl (Error ''Analysis timeout - please try again''), polls (report_id r0) 30)"
proof -
  from assms(3) [of 29] obtain r where r: "getReport 29 (report_id r0) = Inr r"
    "non_terminal (status r)" by auto
  have "poll_loop getReport (report_id r0) 0 r0 [] =
      poll_loop getReport (report_id r0) (Suc 29) r ([] @ polls (report_id r0) (Suc 29 - 0))"
    using poll_loop_prefix [of 29 getReport "report_id r0" r 0 r0 "[]"] assms(2,3) r(1)
    by simp
  then have "poll_loop getReport (report_id r0) 0 r0 [] = (Inr r, polls (report_id r0) 30)"
    by (simp add: poll_loop_exit_budget)
  with assms(1) r(2) show ?thesis
    by (auto simp: poll_report_def non_terminal_def)
qed

lemma poll_report_failed:
  assumes "analyze fid = Inr r0" "non_terminal (status r0)"
    and "\<And>j. j < n \<Longrightarrow> \<exists>r. getReport j (report_id r0) = Inr r \<and> non_terminal (status r)"
    and "getReport n (report_id r0) = Inr rn" "status rn = failed" "n < 30"
  shows "poll_report analyze getReport fid =
     (Inl (Error (if Suc n < 30 then ''Analysis failed''
                  else ''Analysis timeout - please try again'')),
      polls (report_id r0) (Suc n))"
proof -
  have eq: "poll_loop getReport (report_id r0) 0 r0 [] =
      poll_loop getReport (report_id r0) (Suc n) rn (polls (report_id r0) (Suc n))"
    using poll_loop_prefix [of n getReport "report_id r0" rn 0 r0 "[]", OF assms(3,4,6) _ assms(2)]
    by simp
  show ?thesis
  proof (cases "Suc n < 30")
    case True
    with eq assms(1,5) show ?thesis
      by (simp add: poll_report_def poll_loop_failed)
  next
    case False
    with assms(6) have "Suc n = 30" by simp
    with eq assms(1,5) show ?thesis
      by (simp add: poll_report_def poll_loop_exit_budget)
  qed
qed

text \<open>
  C3. When the record created by the request and every fetched record are pending or
  processing, each handler makes exactly 30 fetches, each after one sleep of 2000 ms,
  then stops and reports the timeout message; no report is stored.
\<close>

theorem polling_times_out_after_max_attempts:
  assumes "analyze (farm_id f) = Inr r0" and "non_terminal (status r0)"
    and "\<forall>k. \<exists>r. getReport k (report_id r0) = Inr r \<and> non_terminal (status r)"
  shows "handleSoilHealthOnly (Some f) analyze getReport st =
           (st\<lparr>analyzing := False,
               analysisError := ''Analysis timeout - please try again''\<rparr>,
            polls (report_id r0) 30) \<and>
         handleROIOnly (Some f) analyze getReport st' =
           (st'\<lparr>analyzing := False,
                analysisError := ''Analysis timeout - please try again''\<rparr>,
            polls (report_id r0) 30) \<and>
         fetches (polls (report_id r0) 30) = 30"
proof -
  have "poll_report analyze getReport (farm_id f) =
      (Inl (Error ''Analysis timeout - please try again''), polls (report_id r0) 30)"
    using assms by (intro poll_report_timeout) auto
  then show ?thesis
    by (simp add: handleSoilHealthOnly_def handleROIOnly_def message_or_def fetches_polls)
qed

theorem polling_times_out_after_max_attempts_witness:
  "analysisError (fst (handleSoilHealthOnly (Some demo_farm) demo_analyze
       store_always_processing (initial_page_state :: (nat, nat) page_state))) =
     ''Analysis timeout - please try again'' \<and>
   fetches (snd (handleSoilHealthOnly (Some demo_farm) demo_analyze
       store_always_processing (initial_page_state :: (nat, nat) page_state))) = 30"
  using polling_times_out_after_max_attempts [of demo_analyze demo_farm _ store_always_processing
      "initial_page_state :: (nat, nat) page_state" "initial_page_state :: (nat, nat) page_state"]
  by (simp add: demo_analyze_def store_always_processing_def non_terminal_def)

text \<open>
  C6. When the created record is pending, the first \<open>N\<close> fetches (\<open>N < 30\<close>) return a
  pending record and the next fetch returns a completed record, the soil health handler
  stores that record (payload included) after exactly \<open>N + 1\<close> fetches, each preceded by
  one sleep of 2000 ms, and reports no error.
\<close>

theorem polling_returns_completed_report:
  assumes "analyze (farm_id f) = Inr r0" and "status r0 = pending" and "N < 30"
    and "\<forall>j<N. \<exists>r. getReport j (report_id r0) = Inr r \<and> status r = pending"
    and "getReport N (report_id r0) = Inr rc" and "status rc = completed"
  shows "handleSoilHealthOnly (Some f) analyze getReport st =
           (st\<lparr>analyzing := False, analysisError := [],
               soilHealthReport := Some rc, showSoilHealth := True\<rparr>,
            polls (report_id r0) (N + 1)) \<and>
         fetches (polls (report_id r0) (N + 1)) = N + 1"
proof -
  have "poll_report analyze getReport (farm_id f) = (Inr rc, polls (report_id r0) (Suc N))"
    using assms by (intro poll_report_completed) (auto simp: non_terminal_def)
  then show ?thesis
    using fetches_polls [of "report_id r0" "Suc N"]
    by (simp add: handleSoilHealthOnly_def del: polls.simps)
qed

theorem polling_returns_completed_report_witness:
  "map_option payload (soilHealthReport (fst (handleSoilHealthOnly (Some demo_farm) demo_analyze
       store_completed_third (initial_page_state :: (nat, nat) page_state)))) = Some (Some 82) \<and>
   snd (handleSoilHealthOnly (Some demo_farm) demo_analyze
       store_completed_third (initial_page_state :: (nat, nat) page_state)) =
     [Sleep 2000, Fetch ''analysis-1'', Sleep 2000, Fetch ''analysis-1'',
      Sleep 2000, Fetch ''analysis-1'']"
  using polling_returns_completed_report [of demo_analyze demo_farm _ 2 store_completed_third _
      "initial_page_state :: (nat, nat) page_state"]
  by (simp add: demo_analyze_def store_completed_third_def numeral_3_eq_3)


text \<open>
  C4, as the code has it. When the created record and the fetches before fetch \<open>k\<close>
  are pending or processing and fetch \<open>k\<close> (\<open>1 \<le> k \<le> 30\<close>) returns a failed record,
  each handler makes exactly \<open>k\<close> fetches and no further one; for \<open>k < 30\<close> it reports
  the fixed message \<open>Analysis failed\<close>, whatever error message the record stores, and
  stores no report.
\<close>

theorem polling_stops_at_failed_fetch:
  assumes "analyze (farm_id f) = Inr r0" and "non_terminal (status r0)"
    and "1 \<le> k" and "k \<le> 30"
    and "\<forall>j<k - 1. \<exists>r. getReport j (report_id r0) = Inr r \<and> non_terminal (status r)"
    and "getReport (k - 1) (report_id r0) = Inr rf" and "status rf = failed"
  shows "snd (handleSoilHealthOnly (Some f) analyze getReport st) = polls (report_id r0) k \<and>
         snd (handleROIOnly (Some f) analyze getReport st') = polls (report_id r0) k \<and>
         fetches (polls (report_id r0) k) = k \<and>
         (k < 30 \<longrightarrow>
            fst (handleSoilHealthOnly (Some f) analyze getReport st) =
              st\<lparr>analyzing := False, analysisError := ''Analysis failed''\<rparr> \<and>
            fst (handleROIOnly (Some f) analyze getReport st') =
              st'\<lparr>analyzing := False, analysisError := ''Analysis failed''\<rparr>)"
proof -
  have k: "Suc (k - 1) = k" "k - 1 < 30" using assms(3,4) by simp_all
  have "poll_report analyze getReport (farm_id f) =
     (Inl (Error (if Suc (k - 1) < 30 then ''Analysis failed''
                  else ''Analysis timeout - please try again'')),
      polls (report_id r0) (Suc (k - 1)))"
    using assms k(2) by (intro poll_report_failed) auto
  then have "poll_report analyze getReport (farm_id f) =
     (Inl (Error (if k < 30 then ''Analysis failed''
                  else ''Analysis timeout - please try again'')),
      polls (report_id r0) k)"
    by (simp only: k(1))
  then show ?thesis
    using fetches_polls [of "report_id r0" k]
    by (simp add: handleSoilHealthOnly_def handleROIOnly_def message_or_def)
qed

theorem polling_stops_at_failed_fetch_witness:
  "handleSoilHealthOnly (Some demo_farm) demo_analyze store_failed_third
       (initial_page_state :: (nat, nat) page_state) =
     (initial_page_state\<lparr>analysisError := ''Analysis failed''\<rparr>,
      [Sleep 2000, Fetch ''analysis-1'', Sleep 2000, Fetch ''analysis-1'',
       Sleep 2000, Fetch ''analysis-1''])"
  using polling_stops_at_failed_fetch [of demo_analyze demo_farm _ 3 store_failed_third _
      "initial_page_state :: (nat, nat) page_state" "initial_page_state :: (nat, nat) page_state"]
  by (simp add: demo_analyze_def store_failed_third_def non_terminal_def numeral_3_eq_3
      prod_eq_iff initial_page_state_def)

text \<open>
  The store answers the first fetch with a failed record whose error message is
  \<open>Satellite data unavailable\<close>; the handler reports \<open>Analysis failed\<close> instead.
\<close>

theorem failed_message_not_surfaced:
  "store_failed_first 0 ''analysis-1'' =
     Inr \<lparr>report_id = ''analysis-1'', status = failed,
          error_message = Some ''Satellite data unavailable'', payload = None\<rparr> \<and>
   analysisError (fst (handleSoilHealthOnly (Some demo_farm) demo_analyze store_failed_first
       (initial_page_state :: (nat, nat) page_state))) = ''Analysis failed'' \<and>
   analysisError (fst (handleSoilHealthOnly (Some demo_farm) demo_analyze store_failed_first
       (initial_page_state :: (nat, nat) page_state))) \<noteq> ''Satellite data unavailable''"
proof -
  have "poll_report demo_analyze store_failed_first (farm_id demo_farm) =
     (Inl (Error (if Suc 0 < 30 then ''Analysis failed''
                  else ''Analysis timeout - please try again'')),
      polls ''analysis-1'' (Suc 0))"
    using poll_report_failed [of demo_analyze "farm_id demo_farm" _ 0 store_failed_first]
    by (simp add: demo_analyze_def store_failed_first_def non_terminal_def)
  then show ?thesis
    by (simp add: handleSoilHealthOnly_def message_or_def store_failed_first_def)
qed

text \<open>
  C5, at the input where the code departs from it. The store answers the fetches 1 to 29
  with a processing record and fetch 30 with a failed record: the last fetched record
  has status failed, and both handlers report the timeout message.
\<close>

theorem failed_on_last_fetch_reported_as_timeout:
  "store_failed_last 29 ''analysis-1'' =
     Inr \<lparr>report_id = ''analysis-1'', status = failed,
          error_message = Some ''Earth Engine quota exceeded'', payload = None\<rparr> \<and>
   handleSoilHealthOnly (Some demo_farm) demo_analyze store_failed_last
       (initial_page_state :: (nat, nat) page_state) =
     (initial_page_state\<lparr>analysisError := ''Analysis timeout - please try again''\<rparr>,
      polls ''analysis-1'' 30) \<and>
   handleROIOnly (Some demo_farm) demo_analyze store_failed_last
       (initial_page_state :: (nat, nat) page_state) =
     (initial_page_state\<lparr>analysisError := ''Analysis timeout - please try again''\<rparr>,
      polls ''analysis-1'' 30)"
proof -
  have "poll_report demo_analyze store_failed_last (farm_id demo_farm) =
     (Inl (Error (if Suc 29 < 30 then ''Analysis failed''
                  else ''Analysis timeout - please try again'')),
      polls ''analysis-1'' (Suc 29))"
    using poll_report_failed [of demo_analyze "farm_id demo_farm" _ 29 store_failed_last]
    by (simp add: demo_analyze_def store_failed_last_def non_terminal_def del: polls.simps)
  then show ?thesis
    by (simp add: handleSoilHealthOnly_def handleROIOnly_def message_or_def
        store_failed_last_def initial_page_state_def del: polls.simps)
qed


subsection \<open>The zone grid\<close>
























subsection \<open>The grid tier\<close>

text \<open>
  C8. For every area above 0 exactly one line of the tier table applies, and it is the
  one of the step function: 2 by 2 at 10 m below 2 ha, 3 by 3 at 10 m from 2 ha to below
  10 ha, 4 by 4 at 30 m from 10 ha to below 50 ha, 5 by 5 at 30 m from 50 ha; each of the
  boundary areas 2, 10 and 50 gets the upper tier.
\<close>

theorem tier_is_step_function:
  "0 < a \<Longrightarrow>
     select_tier a =
       [if a < 2 then \<lparr>grid_rows = 2, grid_cols = 2, zone_count = 4, resolution_m = 10\<rparr>
        else if a < 10 then \<lparr>grid_rows = 3, grid_cols = 3, zone_count = 9, resolution_m = 10\<rparr>
        else if a < 50 then \<lparr>grid_rows = 4, grid_cols = 4, zone_count = 16, resolution_m = 30\<rparr>
        else \<lparr>grid_rows = 5, grid_cols = 5, zone_count = 25, resolution_m = 30\<rparr>] \<and>
     select_tier 2 = [\<lparr>grid_rows = 3, grid_cols = 3, zone_count = 9, resolution_m = 10\<rparr>] \<and>
     select_tier 10 = [\<lparr>grid_rows = 4, grid_cols = 4, zone_count = 16, resolution_m = 30\<rparr>] \<and>
     select_tier 50 = [\<lparr>grid_rows = 5, grid_cols = 5, zone_count = 25, resolution_m = 30\<rparr>]"
  by (simp add: select_tier_def tier_table_def in_area_range_def)

theorem tier_is_step_function_witness:
  "select_tier (15 / 2) = [\<lparr>grid_rows = 3, grid_cols = 3, zone_count = 9, resolution_m = 10\<rparr>] \<and>
   select_tier 120 = [\<lparr>grid_rows = 5, grid_cols = 5, zone_count = 25, resolution_m = 30\<rparr>]"
  using tier_is_step_function [of "15 / 2"] tier_is_step_function [of 120]
  by simp

subsection \<open>Farm records\<close>













end
